theory Spec2Isabelle
  imports Complex_Main
begin

section \<open>Locomotive risk and performance prediction engine\<close>

text \<open>
  A shallow embedding of \<^verbatim>\<open>app/models/locomotive.py\<close> (the risk and
  reliability methods of the locomotive entity), \<^verbatim>\<open>app/loco_ml_service.py\<close>
  (feature derivation, the model-backed prediction path, the fallback path, the
  prediction synthesizer and the recommendation generator) and the prediction part of
  \<^verbatim>\<open>bulk_predict\<close> in \<^verbatim>\<open>app/routes/loco_predictions.py\<close>.

  Conventions of the embedding.
  \<^item> Python numbers (\<^verbatim>\<open>int\<close> and \<^verbatim>\<open>float\<close>) are read as exact numbers:
    integers of the snapshot are \<^typ>\<open>int\<close>, every computed quantity is a
    \<^typ>\<open>real\<close>. Rounding error of binary floating point is not modelled.
  \<^item> The wall clock (\<^verbatim>\<open>datetime.now()\<close>, \<^verbatim>\<open>date.today()\<close>) is an explicit
    argument, the record \<open>clock\<close>.
  \<^item> The pickled scikit-learn objects are opaque: they are an explicit argument, the record
    \<open>artifact_bundle\<close>, whose components are arbitrary functions that may fail.
  \<^item> Every \<^verbatim>\<open>raise\<close> is a value \<open>Inl e\<close> of a sum type; \<^verbatim>\<open>try/except Exception\<close>
    is a case distinction on it.
  \<^item> The recommendation texts are the source's string literals without their leading
    pictograph (the file is ASCII).
\<close>

subsection \<open>Python primitives\<close>

datatype py_error = ZeroDivisionError | ValueError | ModelError

text \<open>True division \<^verbatim>\<open>a / b\<close>: raises on a zero denominator.\<close>

definition py_truediv :: "real \<Rightarrow> real \<Rightarrow> py_error + real" where
  "py_truediv a b = (if b = 0 then Inl ZeroDivisionError else Inr (a / b))"

text \<open>Sequencing of a computation that may raise.\<close>

definition and_then :: "py_error + 'a \<Rightarrow> ('a \<Rightarrow> py_error + 'b) \<Rightarrow> py_error + 'b" where
  "and_then m f = (case m of Inl e \<Rightarrow> Inl e | Inr x \<Rightarrow> f x)"

text \<open>A call into a fitted scikit-learn object: \<open>None\<close> is an exception of the given kind.\<close>

definition call_or :: "py_error \<Rightarrow> 'a option \<Rightarrow> py_error + 'a" where
  "call_or e r = (case r of None \<Rightarrow> Inl e | Some x \<Rightarrow> Inr x)"

text \<open>\<^verbatim>\<open>int(x)\<close> on a float truncates towards zero.\<close>

definition py_int :: "real \<Rightarrow> int" where
  "py_int x = (if x < 0 then \<lceil>x\<rceil> else \<lfloor>x\<rfloor>)"

text \<open>\<^verbatim>\<open>round(x)\<close> rounds to the nearest integer, ties to the even one;
  \<^verbatim>\<open>round(x, 2)\<close> does so at the second decimal.\<close>

definition py_round :: "real \<Rightarrow> int" where
  "py_round x =
     (let f = \<lfloor>x\<rfloor>; d = x - of_int f
      in if d < 1 / 2 then f else if 1 / 2 < d then f + 1 else if even f then f else f + 1)"

definition round2 :: "real \<Rightarrow> real" where
  "round2 x = of_int (py_round (x * 100)) / 100"

subsection \<open>The locomotive snapshot and the clock\<close>

text \<open>
  The columns of \<^verbatim>\<open>Locomotive\<close> the engine reads. \<open>last_maintenance\<close> is a date
  (a day number) or \<open>None\<close>; \<open>fleet\<close> is the optional attribute read with
  \<^verbatim>\<open>getattr(locomotive, 'fleet', 'NRZ')\<close>.
\<close>

record locomotive =
  model :: string
  manufacturing_year :: int
  operating_hours :: int
  last_maintenance :: "int option"
  current_status :: string
  fleet :: "string option"

record clock =
  current_year :: int
  current_month :: nat
  today :: int
  now_iso :: string

definition age :: "clock \<Rightarrow> locomotive \<Rightarrow> int" where
  "age clk l = current_year clk - manufacturing_year l"

subsection \<open>Risk and reliability methods of the locomotive\<close>

definition calculate_risk_score :: "clock \<Rightarrow> locomotive \<Rightarrow> real" where
  "calculate_risk_score clk l =
     (let age_risk = min 50 (of_int (age clk l) * 2);
          usage_risk = min 30 ((of_int (operating_hours l) / 1000) * 0.6);
          maintenance_risk =
            (case last_maintenance l of
               Some d \<Rightarrow>
                 (let days_since_maintenance = today clk - d
                  in min 20 (of_int days_since_maintenance * 0.2))
             | None \<Rightarrow> 20);
          total_risk = age_risk + usage_risk + maintenance_risk
      in min 100 total_risk)"

definition get_risk_level :: "clock \<Rightarrow> locomotive \<Rightarrow> string" where
  "get_risk_level clk l =
     (let score = calculate_risk_score clk l
      in if score \<ge> 70 then ''High'' else if score \<ge> 40 then ''Medium'' else ''Low'')"

definition calculate_reliability :: "clock \<Rightarrow> locomotive \<Rightarrow> real" where
  "calculate_reliability clk l =
     (let reliability = 100;
          age_factor = min 30 (of_int (age clk l) * 1.5);
          reliability = reliability - age_factor;
          usage_factor = min 20 ((of_int (operating_hours l) / 10000) * 2);
          reliability = reliability - usage_factor;
          reliability =
            (case last_maintenance l of
               Some d \<Rightarrow>
                 (let days_since_maintenance = today clk - d
                  in if days_since_maintenance > 90
                     then reliability - min 15 (of_int (days_since_maintenance - 90) * 0.1)
                     else reliability)
             | None \<Rightarrow> reliability - 15);
          reliability =
            (if current_status l = ''repair'' then reliability - 25
             else if current_status l = ''maintenance'' then reliability - 10
             else reliability)
      in max 0 (min 100 reliability))"

text \<open>
  The items of \<^verbatim>\<open>get_maintenance_recommendations\<close> are dictionaries with the keys
  \<^verbatim>\<open>type\<close>, \<^verbatim>\<open>priority\<close> and \<^verbatim>\<open>description\<close>, here association lists.
\<close>

type_synonym maintenance_item = "(string \<times> string) list"

definition get_maintenance_recommendations :: "clock \<Rightarrow> locomotive \<Rightarrow> maintenance_item list" where
  "get_maintenance_recommendations clk l =
     (let score = calculate_risk_score clk l
      in (if age clk l > 20
          then [[(''type'', ''Engine Overhaul''),
                 (''priority'', if age clk l > 25 then ''High'' else ''Medium''),
                 (''description'', ''Consider major engine overhaul due to age'')]]
          else [])
       @ (if operating_hours l > 50000
          then [[(''type'', ''Transmission Service''),
                 (''priority'', ''High''),
                 (''description'', ''Transmission requires major service'')]]
          else [])
       @ (if (case last_maintenance l of None \<Rightarrow> True | Some d \<Rightarrow> today clk - d > 90)
          then [[(''type'', ''Routine Maintenance''),
                 (''priority'', ''High''),
                 (''description'', ''Overdue for routine maintenance'')]]
          else [])
       @ (if score > 60
          then [[(''type'', ''Comprehensive Inspection''),
                 (''priority'', ''High''),
                 (''description'', ''Full system inspection recommended'')]]
          else []))"

subsection \<open>Recommendation texts\<close>

text \<open>
  The string literals of \<^verbatim>\<open>loco_ml_service.py\<close>, in the order of the source:
  the basic risk statements, the per-metric statements, then those of the fallback
  path. A text that occurs twice in the source (the fuel statements) has one name.
\<close>

definition basic_high :: string where
  "basic_high = ''URGENT: High risk detected. Schedule immediate inspection before operations.''"

definition basic_medium :: string where
  "basic_medium = ''Medium risk level. Monitor performance closely during operations.''"

definition basic_low :: string where
  "basic_low = ''Low risk level. Locomotive is in good operational condition.''"

definition continue_monitoring :: string where
  "continue_monitoring = ''Continue regular maintenance and monitoring''"

definition avail_high_1 :: string where
  "avail_high_1 = ''LOW AVAILABILITY EXPECTED: Schedule extended maintenance downtime to improve reliability.''"

definition avail_high_2 :: string where
  "avail_high_2 = ''Multiple system checks required. Consider component replacement.''"

definition avail_medium_1 :: string where
  "avail_medium_1 = ''MODERATE AVAILABILITY: Plan maintenance during low-demand periods.''"

definition avail_medium_2 :: string where
  "avail_medium_2 = ''Increase inspection frequency to prevent unexpected downtime.''"

definition avail_low_1 :: string where
  "avail_low_1 = ''HIGH AVAILABILITY EXPECTED: Continue current maintenance schedule.''"

definition avail_low_2 :: string where
  "avail_low_2 = ''Suitable for continuous operations and high-demand periods.''"

definition avail_aged :: string where
  "avail_aged = ''AGED LOCOMOTIVE: Plan for increased maintenance windows due to age.''"

definition dist_high_1 :: string where
  "dist_high_1 = ''LIMITED DISTANCE CAPABILITY: Avoid long-distance routes (>500km).''"

definition dist_high_2 :: string where
  "dist_high_2 = ''Reduced operational range expected. Plan for shorter routes.''"

definition dist_medium_1 :: string where
  "dist_medium_1 = ''MODERATE DISTANCE CAPABILITY: Suitable for medium-distance routes (200-500km).''"

definition dist_medium_2 :: string where
  "dist_medium_2 = ''Monitor fuel consumption and system performance on longer routes.''"

definition dist_low_1 :: string where
  "dist_low_1 = ''HIGH DISTANCE CAPABILITY: Suitable for long-distance operations.''"

definition dist_low_2 :: string where
  "dist_low_2 = ''Can handle extended routes and heavy freight operations.''"

definition dist_usage :: string where
  "dist_usage = ''HIGH USAGE: Consider route planning to minimize wear on high-mileage components.''"

definition daily_high_1 :: string where
  "daily_high_1 = ''LOW DAILY DISTANCE: Limit to short-haul operations (<200km/day).''"

definition daily_high_2 :: string where
  "daily_high_2 = ''System performance issues affecting daily range. Schedule diagnostics.''"

definition daily_medium_1 :: string where
  "daily_medium_1 = ''MODERATE DAILY DISTANCE: Suitable for medium-haul operations (200-400km/day).''"

definition daily_medium_2 :: string where
  "daily_medium_2 = ''Monitor daily performance metrics and fuel consumption.''"

definition daily_low_1 :: string where
  "daily_low_1 = ''HIGH DAILY DISTANCE: Capable of long-haul operations (>400km/day).''"

definition daily_low_2 :: string where
  "daily_low_2 = ''Optimal for high-intensity daily operations.''"

definition daily_aged :: string where
  "daily_aged = ''AGED LOCOMOTIVE: Daily distance may be limited by component wear.''"

definition fail_high_1 :: string where
  "fail_high_1 = ''HIGH FAILURE RISK: Schedule comprehensive maintenance before operations.''"

definition fail_high_2 :: string where
  "fail_high_2 = ''Avoid critical routes. Have backup locomotive ready.''"

definition fail_medium_1 :: string where
  "fail_medium_1 = ''MODERATE FAILURE RISK: Increase monitoring frequency during operations.''"

definition fail_medium_2 :: string where
  "fail_medium_2 = ''Schedule preventive maintenance to reduce failure probability.''"

definition fail_low_1 :: string where
  "fail_low_1 = ''LOW FAILURE RISK: Continue current maintenance practices.''"

definition fail_low_2 :: string where
  "fail_low_2 = ''Suitable for critical and time-sensitive operations.''"

definition fail_aged :: string where
  "fail_aged = ''AGED LOCOMOTIVE: Higher failure risk due to component aging.''"

definition fail_usage :: string where
  "fail_usage = ''HIGH USAGE: Component fatigue may increase failure probability.''"

definition rel_critical_1 :: string where
  "rel_critical_1 = ''CRITICAL RELIABILITY: Do not assign to critical routes or time-sensitive operations.''"

definition rel_critical_2 :: string where
  "rel_critical_2 = ''Schedule comprehensive diagnostic check. Multiple systems need attention.''"

definition rel_low_1 :: string where
  "rel_low_1 = ''LOW RELIABILITY: Suitable for non-critical operations with backup plans.''"

definition rel_low_2 :: string where
  "rel_low_2 = ''Increase monitoring frequency. Prepare contingency plans.''"

definition rel_high_1 :: string where
  "rel_high_1 = ''HIGH RELIABILITY: Suitable for all types of operations.''"

definition rel_high_2 :: string where
  "rel_high_2 = ''Optimal for critical routes and time-sensitive deliveries.''"

definition rel_aged :: string where
  "rel_aged = ''AGED LOCOMOTIVE: Reliability may decrease due to component aging.''"

definition fuel_poor_1 :: string where
  "fuel_poor_1 = ''POOR FUEL EFFICIENCY: Check engine tuning, air filters, and fuel injection systems.''"

definition fuel_poor_2 :: string where
  "fuel_poor_2 = ''Avoid this locomotive for fuel-sensitive operations. Consider engine overhaul.''"

definition fuel_moderate_1 :: string where
  "fuel_moderate_1 = ''MODERATE FUEL EFFICIENCY: Schedule engine tune-up and filter replacement.''"

definition fuel_moderate_2 :: string where
  "fuel_moderate_2 = ''Monitor fuel consumption closely. Consider driver training for fuel-efficient operation.''"

definition fuel_good_1 :: string where
  "fuel_good_1 = ''GOOD FUEL EFFICIENCY: Continue current maintenance practices to maintain efficiency.''"

definition fuel_good_2 :: string where
  "fuel_good_2 = ''Suitable for fuel-sensitive operations and long-distance routes.''"

definition fuel_winter :: string where
  "fuel_winter = ''WINTER: Cold weather reduces fuel efficiency. Plan for increased consumption.''"

definition fuel_summer :: string where
  "fuel_summer = ''SUMMER: High temperatures may reduce fuel efficiency. Monitor cooling systems.''"

definition fb_high_1 :: string where
  "fb_high_1 = ''URGENT: Do not use this locomotive for heavy operations. Schedule immediate comprehensive inspection and maintenance before next deployment.''"

definition fb_high_2 :: string where
  "fb_high_2 = ''Avoid long-distance routes (>500km) until risk assessment improves. Consider short-haul operations only.''"

definition fb_medium_1 :: string where
  "fb_medium_1 = ''Schedule preventive maintenance within 2 weeks. Monitor performance closely during operations.''"

definition fb_medium_2 :: string where
  "fb_medium_2 = ''Suitable for medium-distance routes (200-500km). Avoid extreme weather conditions.''"

definition fb_low_1 :: string where
  "fb_low_1 = ''Locomotive is in good condition. Continue current maintenance schedule and regular operations.''"

definition fb_low_2 :: string where
  "fb_low_2 = ''Suitable for all types of operations including long-distance and heavy freight.''"

definition fb_age25_1 :: string where
  "fb_age25_1 = ''CRITICAL: Major overhaul required due to age. Consider retiring from primary operations.''"

definition fb_age25_2 :: string where
  "fb_age25_2 = ''Plan for component replacement - engine, transmission, and braking systems need attention.''"

definition fb_age20_1 :: string where
  "fb_age20_1 = ''Schedule major maintenance cycle. Age indicates increased component wear.''"

definition fb_age20_2 :: string where
  "fb_age20_2 = ''Use for lighter operations during peak maintenance periods.''"

definition fb_age15 :: string where
  "fb_age15 = ''Increase inspection frequency. Monitor for early signs of component degradation.''"

definition fb_hours60_1 :: string where
  "fb_hours60_1 = ''HIGH USAGE: Operating hours exceed recommended limits. Schedule extended maintenance downtime.''"

definition fb_hours60_2 :: string where
  "fb_hours60_2 = ''Consider rotating this locomotive to lighter duty cycles to extend service life.''"

definition fb_hours50 :: string where
  "fb_hours50 = ''High operating hours detected. Plan for major component inspection and replacement.''"

definition fb_winter_1 :: string where
  "fb_winter_1 = ''WINTER OPERATIONS: Ensure heating systems are functional. Check antifreeze levels and battery condition.''"

definition fb_winter_2 :: string where
  "fb_winter_2 = ''Avoid operations in severe weather conditions. Plan for reduced availability due to weather.''"

definition fb_summer_1 :: string where
  "fb_summer_1 = ''SUMMER OPERATIONS: Monitor cooling systems closely. Ensure adequate ventilation for crew comfort.''"

definition fb_summer_2 :: string where
  "fb_summer_2 = ''High temperature operations may reduce efficiency. Plan for increased maintenance intervals.''"

definition fb_nrz :: string where
  "fb_nrz = ''NRZ FLEET: Follow NRZ maintenance protocols. Ensure compliance with internal standards.''"

definition fb_hired :: string where
  "fb_hired = ''HIRED FLEET: Review contractual maintenance obligations. Coordinate with vendor for major repairs.''"

definition fb_continue :: string where
  "fb_continue = ''Continue regular maintenance schedule and monitor performance indicators.''"

subsection \<open>The model artifact bundle\<close>

text \<open>
  The fitted objects loaded by \<^verbatim>\<open>_load_models\<close>. A label encoder raises on a label
  it has not seen, the scaler and the models may raise on any input: \<open>None\<close>.
  \<open>reliability_decoder\<close> is \<^verbatim>\<open>reliability_encoder.inverse_transform\<close>.
\<close>

type_synonym features = "(string \<times> real) list"

record artifact_bundle =
  models_loaded :: bool
  fleet_encoder :: "string \<Rightarrow> real option"
  reliability_encoder :: "string \<Rightarrow> real option"
  age_encoder :: "string \<Rightarrow> real option"
  scaler :: "features \<Rightarrow> real list option"
  risk_model :: "real list \<Rightarrow> real option"
  reliability_model :: "real list \<Rightarrow> real option"
  reliability_decoder :: "real \<Rightarrow> string option"

subsection \<open>Feature derivation\<close>

text \<open>
  The body of the \<^verbatim>\<open>try\<close> block of \<^verbatim>\<open>_prepare_locomotive_features\<close>. The locals
  \<^verbatim>\<open>age\<close> and \<^verbatim>\<open>operating_hours\<close> are \<open>a\<close> and \<open>h\<close>. A division by a
  non-zero literal is written \<open>/\<close>; every other division is \<open>py_truediv\<close> and may raise.
\<close>

definition derive_features :: "artifact_bundle \<Rightarrow> clock \<Rightarrow> locomotive \<Rightarrow> py_error + features" where
  "derive_features b clk l =
     (let loco_type = (if model l = ''DE10'' then 1 else 2);
          a = of_int (age clk l);
          h = of_int (operating_hours l);
          availability_days = max 300 (365 - (a * 5));
          distance_travelled = h * 50;
          distance_per_day = (if availability_days > 0 then distance_travelled / 365 else 0);
          total_failures = max 0 (a * 2 + (h / 10000));
          reliability = max 60 (95 - (a * 2) - (total_failures * 5))
      in and_then (py_truediv total_failures (max 1 (h / 1000))) (\<lambda>failure_rate.
         and_then (py_truediv h (max 1 (a * 365 * 24))) (\<lambda>usage_intensity.
         let maintenance_frequency = max 2 (a * 0.5);
             fuel_efficiency = max 70 (90 - (a * 1.5));
             efficiency_score = (reliability + fuel_efficiency) / 2;
             maintenance_score = max 60 (100 - (maintenance_frequency * 10));
             risk_score = (total_failures * 10) + (a * 2) + (failure_rate * 100);
             reliability_category =
               (if reliability \<ge> 90 then ''High''
                else if reliability \<ge> 75 then ''Medium''
                else if reliability \<ge> 60 then ''Low''
                else ''Critical'');
             age_category =
               (if a \<le> 5 then ''New''
                else if a \<le> 10 then ''Young''
                else if a \<le> 20 then ''Mature''
                else ''Old'');
             fleet_type = (case fleet l of None \<Rightarrow> ''NRZ'' | Some f \<Rightarrow> f)
         in and_then (call_or ValueError (fleet_encoder b fleet_type)) (\<lambda>fleet_encoded.
            and_then (call_or ValueError (reliability_encoder b reliability_category)) (\<lambda>reliability_encoded.
            and_then (call_or ValueError (age_encoder b age_category)) (\<lambda>age_encoded.
            and_then (py_truediv total_failures (max 1 h)) (\<lambda>failure_rate_per_hour.
            and_then (py_truediv distance_travelled (max 1 h)) (\<lambda>distance_per_hour.
            let availability_rate = availability_days / 365
            in Inr [(''LOCO_TYPE'', loco_type),
                    (''YEAR'', of_int (current_year clk)),
                    (''Availability_Days'', availability_days),
                    (''Distance_Travelled'', distance_travelled),
                    (''Distance_per_day'', distance_per_day),
                    (''Total_Failures'', total_failures),
                    (''Reliability'', reliability),
                    (''Failure_Rate'', failure_rate),
                    (''Age_of_Locomotive'', a),
                    (''Usage_Intensity'', usage_intensity),
                    (''Maintenance_Frequency'', maintenance_frequency),
                    (''Fuel_Efficiency'', fuel_efficiency),
                    (''Operating_Hours'', h),
                    (''Fleet_Type_Encoded'', fleet_encoded),
                    (''Efficiency_Score'', efficiency_score),
                    (''Maintenance_Score'', maintenance_score),
                    (''Reliability_Category_Encoded'', reliability_encoded),
                    (''Age_Category_Encoded'', age_encoded),
                    (''Failure_Rate_per_Hour'', failure_rate_per_hour),
                    (''Distance_per_Hour'', distance_per_hour),
                    (''Availability_Rate'', availability_rate)]))))))))"

text \<open>\<^verbatim>\<open>except Exception: return None\<close>.\<close>

definition prepare_locomotive_features :: "artifact_bundle \<Rightarrow> clock \<Rightarrow> locomotive \<Rightarrow> features option" where
  "prepare_locomotive_features b clk l =
     (case derive_features b clk l of Inl e \<Rightarrow> None | Inr features_df \<Rightarrow> Some features_df)"

subsection \<open>Prediction synthesizer\<close>

text \<open>The six metric names, in the order the source fills the dictionary.\<close>

definition metric_names :: "string list" where
  "metric_names = [''availability_days'', ''distance_travelled'', ''distance_per_day'',
                   ''total_failures'', ''reliability'', ''fuel_efficiency'']"

definition generate_specific_predictions ::
  "clock \<Rightarrow> locomotive \<Rightarrow> string \<Rightarrow> int \<Rightarrow> real \<Rightarrow> string \<Rightarrow> (string \<times> real) list" where
  "generate_specific_predictions clk l prediction_type period_days risk_score reliability_category =
     (let a = of_int (age clk l);
          h = of_int (operating_hours l)
      in (if prediction_type = ''all'' \<or> prediction_type = ''availability_days''
          then (let base_availability = max 250 (365 - (a * 8));
                    risk_factor = 1 - (risk_score / 200);
                    predicted_availability = of_int (py_int (base_availability * risk_factor))
                in [(''availability_days'', max 0 predicted_availability)])
          else [])
       @ (if prediction_type = ''all'' \<or> prediction_type = ''distance_travelled''
          then (let base_distance = h * 45;
                    risk_factor = 1 - (risk_score / 300);
                    predicted_distance = of_int (py_int (base_distance * risk_factor))
                in [(''distance_travelled'', max 0 predicted_distance)])
          else [])
       @ (if prediction_type = ''all'' \<or> prediction_type = ''distance_per_day''
          then (let base_daily_distance = 120;
                    risk_factor = 1 - (risk_score / 200);
                    predicted_daily_distance = round2 (base_daily_distance * risk_factor)
                in [(''distance_per_day'', max 0 predicted_daily_distance)])
          else [])
       @ (if prediction_type = ''all'' \<or> prediction_type = ''total_failures''
          then (let base_failure_rate = a * 0.5 + (h / 15000);
                    risk_factor = 1 + (risk_score / 100);
                    predicted_failures = of_int (py_int (base_failure_rate * risk_factor))
                in [(''total_failures'', max 0 predicted_failures)])
          else [])
       @ (if prediction_type = ''all'' \<or> prediction_type = ''reliability''
          then (let base_reliability = max 50 (95 - (a * 2.5));
                    risk_factor = 1 - (risk_score / 150);
                    predicted_reliability = round2 (base_reliability * risk_factor)
                in [(''reliability'', max 0 (min 100 predicted_reliability))])
          else [])
       @ (if prediction_type = ''all'' \<or> prediction_type = ''fuel_efficiency''
          then (let base_efficiency = max 60 (90 - (a * 1.8));
                    risk_factor = 1 - (risk_score / 200);
                    predicted_efficiency = round2 (base_efficiency * risk_factor)
                in [(''fuel_efficiency'', max 0 (min 100 predicted_efficiency))])
          else []))"

subsection \<open>Recommendation generator\<close>

definition get_availability_recommendations :: "string \<Rightarrow> int \<Rightarrow> int \<Rightarrow> string list" where
  "get_availability_recommendations risk_level a hours =
     (if risk_level = ''High'' then [avail_high_1, avail_high_2]
      else if risk_level = ''Medium'' then [avail_medium_1, avail_medium_2]
      else [avail_low_1, avail_low_2])
     @ (if a > 20 then [avail_aged] else [])"

definition get_distance_recommendations :: "string \<Rightarrow> int \<Rightarrow> int \<Rightarrow> string list" where
  "get_distance_recommendations risk_level a hours =
     (if risk_level = ''High'' then [dist_high_1, dist_high_2]
      else if risk_level = ''Medium'' then [dist_medium_1, dist_medium_2]
      else [dist_low_1, dist_low_2])
     @ (if hours > 50000 then [dist_usage] else [])"

definition get_daily_distance_recommendations :: "string \<Rightarrow> int \<Rightarrow> int \<Rightarrow> string list" where
  "get_daily_distance_recommendations risk_level a hours =
     (if risk_level = ''High'' then [daily_high_1, daily_high_2]
      else if risk_level = ''Medium'' then [daily_medium_1, daily_medium_2]
      else [daily_low_1, daily_low_2])
     @ (if a > 20 then [daily_aged] else [])"

definition get_failure_recommendations :: "string \<Rightarrow> int \<Rightarrow> int \<Rightarrow> string list" where
  "get_failure_recommendations risk_level a hours =
     (if risk_level = ''High'' then [fail_high_1, fail_high_2]
      else if risk_level = ''Medium'' then [fail_medium_1, fail_medium_2]
      else [fail_low_1, fail_low_2])
     @ (if a > 20 then [fail_aged] else [])
     @ (if hours > 50000 then [fail_usage] else [])"

definition get_reliability_recommendations :: "string \<Rightarrow> string \<Rightarrow> int \<Rightarrow> int \<Rightarrow> string list" where
  "get_reliability_recommendations risk_level reliability_category a hours =
     (if reliability_category = ''Critical'' then [rel_critical_1, rel_critical_2]
      else if reliability_category = ''Low'' then [rel_low_1, rel_low_2]
      else [rel_high_1, rel_high_2])
     @ (if a > 20 then [rel_aged] else [])"

definition get_fuel_efficiency_recommendations :: "clock \<Rightarrow> string \<Rightarrow> int \<Rightarrow> int \<Rightarrow> string list" where
  "get_fuel_efficiency_recommendations clk risk_level a hours =
     (if a > 20 \<and> hours > 50000 then [fuel_poor_1, fuel_poor_2]
      else if a > 15 \<or> hours > 40000 then [fuel_moderate_1, fuel_moderate_2]
      else [fuel_good_1, fuel_good_2])
     @ (if current_month clk \<in> set [12, 1, 2] then [fuel_winter]
        else if current_month clk \<in> set [6, 7, 8] then [fuel_summer]
        else [])"

definition generate_recommendations ::
  "clock \<Rightarrow> locomotive \<Rightarrow> real \<Rightarrow> string \<Rightarrow> string \<Rightarrow> string \<Rightarrow> string list" where
  "generate_recommendations clk l risk_score risk_level reliability_category prediction_type =
     (let a = age clk l;
          hours = operating_hours l;
          recommendations =
            (if risk_level = ''High'' then [basic_high]
             else if risk_level = ''Medium'' then [basic_medium]
             else [basic_low]);
          recommendations = recommendations @
            (if prediction_type = ''availability_days''
               then get_availability_recommendations risk_level a hours
             else if prediction_type = ''distance_travelled''
               then get_distance_recommendations risk_level a hours
             else if prediction_type = ''distance_per_day''
               then get_daily_distance_recommendations risk_level a hours
             else if prediction_type = ''total_failures''
               then get_failure_recommendations risk_level a hours
             else if prediction_type = ''reliability''
               then get_reliability_recommendations risk_level reliability_category a hours
             else if prediction_type = ''fuel_efficiency''
               then get_fuel_efficiency_recommendations clk risk_level a hours
             else if prediction_type = ''all''
               then take 1 (get_availability_recommendations risk_level a hours)
                  @ take 1 (get_daily_distance_recommendations risk_level a hours)
                  @ take 1 (get_fuel_efficiency_recommendations clk risk_level a hours)
                  @ take 1 (get_failure_recommendations risk_level a hours)
             else []);
          recommendations =
            (if length recommendations = 1 then recommendations @ [continue_monitoring]
             else recommendations)
      in take 6 recommendations)"

subsection \<open>The prediction result\<close>

text \<open>
  The result is a dictionary with string keys; its values are strings, numbers, the
  predictions dictionary and the list of recommendations.
\<close>

datatype py_value =
    Str string
  | Num real
  | Dict "(string \<times> real) list"
  | StrList "string list"

type_synonym prediction_result = "(string \<times> py_value) list"

text \<open>Reading the result: \<^verbatim>\<open>result['recommendations']\<close>, \<^verbatim>\<open>result['predictions']\<close>,
  \<^verbatim>\<open>result[key]\<close> for a string or a number.\<close>

definition recommendations_of :: "prediction_result \<Rightarrow> string list" where
  "recommendations_of r = (case map_of r ''recommendations'' of Some (StrList xs) \<Rightarrow> xs | _ \<Rightarrow> [])"

definition predictions_of :: "prediction_result \<Rightarrow> (string \<times> real) list" where
  "predictions_of r = (case map_of r ''predictions'' of Some (Dict d) \<Rightarrow> d | _ \<Rightarrow> [])"


subsection \<open>Fallback predictor\<close>

text \<open>\<^verbatim>\<open>round(n, 2)\<close> of an \<^verbatim>\<open>int\<close> returns the \<^verbatim>\<open>int\<close> unchanged.\<close>

definition round_int :: "int \<Rightarrow> nat \<Rightarrow> int" where
  "round_int n ndigits = n"

text \<open>Lines 421 to 441 of \<^verbatim>\<open>_fallback_prediction\<close>: the predictions dictionary.\<close>

definition fallback_predictions :: "clock \<Rightarrow> locomotive \<Rightarrow> string \<Rightarrow> int \<Rightarrow> (string \<times> real) list" where
  "fallback_predictions clk l prediction_type period_days =
     (let a = age clk l;
          h = operating_hours l
      in (if prediction_type = ''all'' \<or> prediction_type = ''availability_days''
          then [(''availability_days'', of_int (max 200 (365 - (a * 10))))] else [])
       @ (if prediction_type = ''all'' \<or> prediction_type = ''distance_travelled''
          then [(''distance_travelled'',
                 of_int (py_int (of_int h * 40 * (of_int period_days / 365))))] else [])
       @ (if prediction_type = ''all'' \<or> prediction_type = ''distance_per_day''
          then [(''distance_per_day'', of_int (round_int (100 - (a * 2)) 2))] else [])
       @ (if prediction_type = ''all'' \<or> prediction_type = ''total_failures''
          then [(''total_failures'', of_int (max 0 (py_int (of_int a * 1.5))))] else [])
       @ (if prediction_type = ''all'' \<or> prediction_type = ''reliability''
          then [(''reliability'', of_int (max 50 (95 - (a * 3))))] else [])
       @ (if prediction_type = ''all'' \<or> prediction_type = ''fuel_efficiency''
          then [(''fuel_efficiency'', of_int (max 60 (90 - (a * 2))))] else []))"

text \<open>Lines 443 to 503: the recommendations, from the risk level and the predictions.\<close>

definition fallback_recommendations ::
  "clock \<Rightarrow> locomotive \<Rightarrow> string \<Rightarrow> (string \<times> real) list \<Rightarrow> string list" where
  "fallback_recommendations clk l risk_level predictions =
     (let a = age clk l;
          h = operating_hours l;
          recommendations =
            (if risk_level = ''High'' then [fb_high_1, fb_high_2]
             else if risk_level = ''Medium'' then [fb_medium_1, fb_medium_2]
             else [fb_low_1, fb_low_2])
          @ (if a > 25 then [fb_age25_1, fb_age25_2]
             else if a > 20 then [fb_age20_1, fb_age20_2]
             else if a > 15 then [fb_age15]
             else [])
          @ (if h > 60000 then [fb_hours60_1, fb_hours60_2]
             else if h > 50000 then [fb_hours50]
             else [])
          @ (if current_month clk \<in> set [12, 1, 2] then [fb_winter_1, fb_winter_2]
             else if current_month clk \<in> set [6, 7, 8] then [fb_summer_1, fb_summer_2]
             else []);
          predicted_fuel_efficiency =
            (case map_of predictions ''fuel_efficiency'' of Some v \<Rightarrow> v | None \<Rightarrow> 0);
          recommendations = recommendations
          @ (if predicted_fuel_efficiency < 60 then [fuel_poor_1, fuel_poor_2]
             else if predicted_fuel_efficiency < 75 then [fuel_moderate_1, fuel_moderate_2]
             else [fuel_good_1])
          @ (if model l = ''DE10'' then [fb_nrz]
             else if model l = ''DE11'' then [fb_hired]
             else [])
      in if recommendations = [] then recommendations @ [fb_continue] else recommendations)"

definition fallback_prediction :: "clock \<Rightarrow> locomotive \<Rightarrow> string \<Rightarrow> int \<Rightarrow> prediction_result" where
  "fallback_prediction clk l prediction_type period_days =
     (let risk_score = calculate_risk_score clk l;
          risk_level = get_risk_level clk l;
          predictions = fallback_predictions clk l prediction_type period_days;
          recommendations = fallback_recommendations clk l risk_level predictions
      in [(''prediction_type'', Str prediction_type),
          (''period_days'', Num (of_int period_days)),
          (''risk_score'', Num risk_score),
          (''risk_level'', Str risk_level),
          (''reliability_category'', Str ''Medium''),
          (''predictions'', Dict predictions),
          (''recommendations'', StrList recommendations),
          (''prediction_method'', Str ''Fallback Method''),
          (''timestamp'', Str (now_iso clk))])"

subsection \<open>Model predictor\<close>

text \<open>
  Lines 156 to 165 of \<^verbatim>\<open>predict_performance\<close>: the raw output of the risk model is
  rescaled and clamped.
\<close>

definition rescaled_risk_score :: "clock \<Rightarrow> locomotive \<Rightarrow> real \<Rightarrow> real" where
  "rescaled_risk_score clk l ml_risk_score =
     (let risk_score =
            (if ml_risk_score < 10
             then ml_risk_score * 8 + of_int (age clk l) * 1.5
                  + (of_int (operating_hours l) / 1000) * 0.3
             else ml_risk_score * 2 + of_int (age clk l) * 0.5)
      in max 5 (min 100 risk_score))"

text \<open>Lines 167 to 195: the result built from the rescaled score and the decoded category.\<close>

definition model_prediction ::
  "clock \<Rightarrow> locomotive \<Rightarrow> string \<Rightarrow> int \<Rightarrow> real \<Rightarrow> string \<Rightarrow> prediction_result" where
  "model_prediction clk l prediction_type period_days risk_score reliability_category =
     (let risk_level =
            (if risk_score \<ge> 70 then ''High''
             else if risk_score \<ge> 40 then ''Medium''
             else ''Low'');
          predictions = generate_specific_predictions clk l prediction_type period_days
                          risk_score reliability_category;
          recommendations = generate_recommendations clk l risk_score risk_level
                              reliability_category prediction_type
      in [(''prediction_type'', Str prediction_type),
          (''period_days'', Num (of_int period_days)),
          (''risk_score'', Num risk_score),
          (''risk_level'', Str risk_level),
          (''reliability_category'', Str reliability_category),
          (''predictions'', Dict predictions),
          (''recommendations'', StrList recommendations),
          (''prediction_method'', Str ''ML Performance Model''),
          (''timestamp'', Str (now_iso clk))])"

text \<open>
  The body of the \<^verbatim>\<open>try\<close> block of \<^verbatim>\<open>predict_performance\<close>: \<open>Inl\<close> is an
  exception raised inside it.
\<close>

definition predict_with_models ::
  "artifact_bundle \<Rightarrow> clock \<Rightarrow> locomotive \<Rightarrow> string \<Rightarrow> int \<Rightarrow> py_error + prediction_result" where
  "predict_with_models b clk l prediction_type period_days =
     (case prepare_locomotive_features b clk l of
        None \<Rightarrow> Inr (fallback_prediction clk l prediction_type period_days)
      | Some features \<Rightarrow>
          and_then (call_or ModelError (scaler b features)) (\<lambda>features_scaled.
          and_then (call_or ModelError (risk_model b features_scaled)) (\<lambda>ml_risk_score.
          and_then (call_or ModelError (reliability_model b features_scaled)) (\<lambda>reliability_encoded.
          and_then (call_or ValueError (reliability_decoder b reliability_encoded)) (\<lambda>reliability_category.
          Inr (model_prediction clk l prediction_type period_days
                 (rescaled_risk_score clk l ml_risk_score) reliability_category))))))"

definition predict_performance ::
  "artifact_bundle \<Rightarrow> clock \<Rightarrow> locomotive \<Rightarrow> string \<Rightarrow> int \<Rightarrow> prediction_result" where
  "predict_performance b clk l prediction_type period_days =
     (if \<not> models_loaded b then fallback_prediction clk l prediction_type period_days
      else (case predict_with_models b clk l prediction_type period_days of
              Inr result \<Rightarrow> result
            | Inl e \<Rightarrow> fallback_prediction clk l prediction_type period_days))"

subsection \<open>Bulk prediction\<close>

text \<open>
  The predictions dictionary of \<^verbatim>\<open>bulk_predict\<close> (lines 243 to 263 of
  \<^verbatim>\<open>routes/loco_predictions.py\<close>); \<^verbatim>\<open>prediction_period\<close> is fixed to 365.
\<close>

definition bulk_predictions :: "clock \<Rightarrow> locomotive \<Rightarrow> string \<Rightarrow> (string \<times> real) list" where
  "bulk_predictions clk l prediction_type =
     (let prediction_period = 365;
          a = age clk l;
          hours = operating_hours l
      in (if prediction_type = ''all'' \<or> prediction_type = ''availability_days''
          then [(''availability_days'', of_int (max 200 (365 - (a * 8))))] else [])
       @ (if prediction_type = ''all'' \<or> prediction_type = ''distance_travelled''
          then [(''distance_travelled'',
                 of_int (py_int (of_int hours * 45 * (prediction_period / 365))))] else [])
       @ (if prediction_type = ''all'' \<or> prediction_type = ''distance_per_day''
          then [(''distance_per_day'', of_int (round_int (120 - (a * 2)) 2))] else [])
       @ (if prediction_type = ''all'' \<or> prediction_type = ''total_failures''
          then [(''total_failures'', of_int (max 0 (py_int (of_int a * 1.5))))] else [])
       @ (if prediction_type = ''all'' \<or> prediction_type = ''reliability''
          then [(''reliability'', of_int (max 50 (95 - (a * 3))))] else [])
       @ (if prediction_type = ''all'' \<or> prediction_type = ''fuel_efficiency''
          then [(''fuel_efficiency'', of_int (max 60 (90 - (a * 2))))] else []))"

subsection \<open>Example inputs\<close>

text \<open>
  Concrete clocks, snapshots and artifact bundles at which the properties below are
  evaluated. Dates are proleptic Gregorian ordinals (15 April 2025 is day 739356).
\<close>

definition clock_spring :: clock where
  "clock_spring = \<lparr>current_year = 2025, current_month = 4, today = 739356,
                     now_iso = ''2025-04-15T12:00:00''\<rparr>"

definition clock_winter :: clock where
  "clock_winter = \<lparr>current_year = 2025, current_month = 1, today = 739266,
                     now_iso = ''2025-01-15T12:00:00''\<rparr>"

definition loco_mid :: locomotive where
  "loco_mid = \<lparr>model = ''DE10'', manufacturing_year = 2015, operating_hours = 20000,
                 last_maintenance = Some 739326, current_status = ''active'', fleet = None\<rparr>"

definition loco_old :: locomotive where
  "loco_old = \<lparr>model = ''DE10'', manufacturing_year = 1995, operating_hours = 60000,
                 last_maintenance = None, current_status = ''active'', fleet = None\<rparr>"

definition loco_veteran :: locomotive where
  "loco_veteran = \<lparr>model = ''DE10'', manufacturing_year = 1970, operating_hours = 70000,
                     last_maintenance = None, current_status = ''active'', fleet = None\<rparr>"

definition loco_idle :: locomotive where
  "loco_idle = \<lparr>model = ''DE11'', manufacturing_year = 2022, operating_hours = 0,
                  last_maintenance = Some 739356, current_status = ''active'', fleet = None\<rparr>"

text \<open>No artifact could be loaded.\<close>

definition bundle_missing :: artifact_bundle where
  "bundle_missing = \<lparr>models_loaded = False,
     fleet_encoder = (\<lambda>_. None), reliability_encoder = (\<lambda>_. None), age_encoder = (\<lambda>_. None),
     scaler = (\<lambda>_. None), risk_model = (\<lambda>_. None), reliability_model = (\<lambda>_. None),
     reliability_decoder = (\<lambda>_. None)\<rparr>"

text \<open>A loaded bundle whose objects accept every input and answer with constants.\<close>

definition bundle_constant :: artifact_bundle where
  "bundle_constant = \<lparr>models_loaded = True,
     fleet_encoder = (\<lambda>_. Some 0), reliability_encoder = (\<lambda>_. Some 1), age_encoder = (\<lambda>_. Some 2),
     scaler = (\<lambda>f. Some (map snd f)), risk_model = (\<lambda>_. Some 3), reliability_model = (\<lambda>_. Some 1),
     reliability_decoder = (\<lambda>_. Some ''Medium'')\<rparr>"


subsection \<open>The specification's risk formula\<close>

text \<open>
  The formula of the specification, section 4.4, written from its words, to be compared
  with \<open>calculate_risk_score\<close> and \<open>get_risk_level\<close>.
\<close>

definition spec_risk_score :: "int \<Rightarrow> int \<Rightarrow> int option \<Rightarrow> real" where
  "spec_risk_score a hours days =
     min 100 (min 50 (of_int a * 2) + min 30 (of_int hours / 1000 * 0.6)
              + (case days of Some n \<Rightarrow> min 20 (of_int n * 0.2) | None \<Rightarrow> 20))"

definition spec_risk_level :: "real \<Rightarrow> string" where
  "spec_risk_level score =
     (if score \<ge> 70 then ''High'' else if score \<ge> 40 then ''Medium'' else ''Low'')"

definition days_since_last_maintenance :: "clock \<Rightarrow> locomotive \<Rightarrow> int option" where
  "days_since_last_maintenance clk l = map_option (\<lambda>d. today clk - d) (last_maintenance l)"

section \<open>Properties\<close>

subsection \<open>Reading the results\<close>

lemma recommendations_of_fallback:
  "recommendations_of (fallback_prediction clk l p d)
     = fallback_recommendations clk l (get_risk_level clk l) (fallback_predictions clk l p d)"
  by (simp add: recommendations_of_def fallback_prediction_def Let_def)

lemma predictions_of_fallback:
  "predictions_of (fallback_prediction clk l p d) = fallback_predictions clk l p d"
  by (simp add: predictions_of_def fallback_prediction_def Let_def)



lemma predictions_of_model:
  "predictions_of (model_prediction clk l p d rs rc) = generate_specific_predictions clk l p d rs rc"
  by (simp add: predictions_of_def model_prediction_def Let_def)


text \<open>
  When the body of the \<^verbatim>\<open>try\<close> block returns, it returns either the fallback result
  (no features) or the result built from the outputs of the models.
\<close>

lemma predict_with_models_Inr:
  assumes "predict_with_models b clk l p d = Inr r"
  shows "(prepare_locomotive_features b clk l = None \<and> r = fallback_prediction clk l p d)
       \<or> (\<exists>f fs ml re rc. prepare_locomotive_features b clk l = Some f \<and> scaler b f = Some fs
             \<and> risk_model b fs = Some ml \<and> reliability_model b fs = Some re
             \<and> reliability_decoder b re = Some rc
             \<and> r = model_prediction clk l p d (rescaled_risk_score clk l ml) rc)"
  using assms
  by (auto simp: predict_with_models_def and_then_def call_or_def split: option.splits sum.splits)

lemma predict_performance_cases:
  "predict_performance b clk l p d = fallback_prediction clk l p d
   \<or> (\<exists>ml rc. predict_performance b clk l p d
                 = model_prediction clk l p d (rescaled_risk_score clk l ml) rc)"
proof (cases "predict_with_models b clk l p d")
  case (Inl e)
  then show ?thesis by (simp add: predict_performance_def)
next
  case (Inr r)
  from predict_with_models_Inr [OF Inr] show ?thesis
    using Inr by (auto simp: predict_performance_def)
qed

subsection \<open>Bounds of the scores\<close>

lemma risk_score_upper: "calculate_risk_score clk l \<le> 100"
  by (simp add: calculate_risk_score_def Let_def)

lemma risk_score_lower:
  assumes "0 \<le> age clk l" "0 \<le> operating_hours l"
    "(case last_maintenance l of None \<Rightarrow> True | Some day \<Rightarrow> day \<le> today clk)"
  shows "0 \<le> calculate_risk_score clk l"
  using assms
  by (cases "last_maintenance l") (simp_all add: calculate_risk_score_def Let_def)

lemma reliability_bounds:
  "0 \<le> calculate_reliability clk l \<and> calculate_reliability clk l \<le> 100"
  by (simp add: calculate_reliability_def Let_def)

lemma rescaled_bounds:
  "5 \<le> rescaled_risk_score clk l ml \<and> rescaled_risk_score clk l ml \<le> 100"
  by (simp add: rescaled_risk_score_def Let_def)

subsection \<open>Entries of the predictions dictionaries\<close>

lemma keys_gsp:
  "map fst (generate_specific_predictions clk l p d rs rc)
     = filter (\<lambda>k. p = ''all'' \<or> p = k) metric_names"
  by (simp add: generate_specific_predictions_def metric_names_def Let_def)

lemma keys_fallback_predictions:
  "map fst (fallback_predictions clk l p d)
     = filter (\<lambda>k. p = ''all'' \<or> p = k) metric_names"
  by (simp add: fallback_predictions_def metric_names_def Let_def)

lemma filter_metric_single:
  assumes "p \<in> set metric_names"
  shows "filter (\<lambda>k. p = ''all'' \<or> p = k) metric_names = [p]"
  using assms by (auto simp: metric_names_def)

lemma gsp_nonneg:
  "list_all (\<lambda>(k, v). 0 \<le> v) (generate_specific_predictions clk l q d rs rc)"
  by (simp add: generate_specific_predictions_def Let_def)

lemma map_of_gsp_reliability:
  "map_of (generate_specific_predictions clk l p d rs rc) ''reliability''
     = (if p = ''all'' \<or> p = ''reliability''
        then Some (max 0 (min 100
               (round2 (max 50 (95 - (of_int (age clk l) * 2.5)) * (1 - (rs / 150))))))
        else None)"
  by (simp add: generate_specific_predictions_def Let_def)

lemma map_of_gsp_fuel:
  "map_of (generate_specific_predictions clk l p d rs rc) ''fuel_efficiency''
     = (if p = ''all'' \<or> p = ''fuel_efficiency''
        then Some (max 0 (min 100
               (round2 (max 60 (90 - (of_int (age clk l) * 1.8)) * (1 - (rs / 200))))))
        else None)"
  by (simp add: generate_specific_predictions_def Let_def)

lemma map_of_gsp_daily:
  "map_of (generate_specific_predictions clk l p d rs rc) ''distance_per_day''
     = (if p = ''all'' \<or> p = ''distance_per_day''
        then Some (max 0 (round2 (120 * (1 - (rs / 200)))))
        else None)"
  by (simp add: generate_specific_predictions_def Let_def)

lemma map_of_fallback_reliability:
  "map_of (fallback_predictions clk l p d) ''reliability''
     = (if p = ''all'' \<or> p = ''reliability''
        then Some (of_int (max 50 (95 - (age clk l * 3))))
        else None)"
  by (simp add: fallback_predictions_def Let_def)

lemma map_of_fallback_fuel:
  "map_of (fallback_predictions clk l p d) ''fuel_efficiency''
     = (if p = ''all'' \<or> p = ''fuel_efficiency''
        then Some (of_int (max 60 (90 - (age clk l * 2))))
        else None)"
  by (simp add: fallback_predictions_def Let_def)

lemma map_of_fallback_daily:
  "map_of (fallback_predictions clk l p d) ''distance_per_day''
     = (if p = ''all'' \<or> p = ''distance_per_day''
        then Some (of_int (100 - (age clk l * 2)))
        else None)"
  by (simp add: fallback_predictions_def round_int_def Let_def)

lemma map_of_bulk_daily:
  "map_of (bulk_predictions clk l p) ''distance_per_day''
     = (if p = ''all'' \<or> p = ''distance_per_day''
        then Some (of_int (120 - (age clk l * 2)))
        else None)"
  by (simp add: bulk_predictions_def round_int_def Let_def)

lemma risk_score_of_fallback:
  "map_of (fallback_prediction clk l p d) ''risk_score'' = Some (Num (calculate_risk_score clk l))"
  by (simp add: fallback_prediction_def Let_def)

lemma risk_score_of_model:
  "map_of (model_prediction clk l p d rs rc) ''risk_score'' = Some (Num rs)"
  by (simp add: model_prediction_def Let_def)

lemma fallback_recommendations_fuel:
  assumes "map_of preds ''fuel_efficiency'' = None"
  shows "fuel_poor_1 \<in> set (fallback_recommendations clk l lvl preds)
       \<and> fuel_poor_2 \<in> set (fallback_recommendations clk l lvl preds)"
  using assms by (simp add: fallback_recommendations_def Let_def)

lemma keys_predictions_of_result:
  "map fst (predictions_of (predict_performance b clk l p d))
     = filter (\<lambda>k. p = ''all'' \<or> p = k) metric_names"
  using predict_performance_cases [of b clk l p d]
  by (auto simp: predictions_of_fallback predictions_of_model keys_gsp keys_fallback_predictions)







subsection \<open>Feature derivation and the lengths of the recommendation lists\<close>

lemma py_truediv_floor: "py_truediv a (max 1 x) = Inr (a / max 1 x)"
  by (simp add: py_truediv_def max_def)

lemma and_then_Inr: "and_then (Inr x) f = f x"
  by (simp add: and_then_def)

lemma and_then_call_or:
  "and_then (call_or e r) f = (case r of None \<Rightarrow> Inl e | Some x \<Rightarrow> f x)"
  by (simp add: and_then_def call_or_def split: option.splits)

lemma derive_features_error: "derive_features b clk l = Inl e \<Longrightarrow> e = ValueError"
  unfolding derive_features_def Let_def py_truediv_floor and_then_Inr and_then_call_or
  by (simp split: option.splits split del: if_split)

lemma derive_features_succeeds:
  assumes "\<And>s. fleet_encoder b s \<noteq> None" "\<And>s. reliability_encoder b s \<noteq> None"
    "\<And>s. age_encoder b s \<noteq> None"
  shows "\<exists>f. derive_features b clk l = Inr f"
  unfolding derive_features_def Let_def py_truediv_floor and_then_Inr and_then_call_or
  by (simp add: assms split: option.splits split del: if_split)

lemma derive_features_idle:
  assumes "operating_hours l = 0" and "0 \<le> age clk l" and "derive_features b clk l = Inr f"
  shows "map_of f ''Failure_Rate'' = Some (of_int (age clk l) * 2)
       \<and> map_of f ''Usage_Intensity'' = Some 0
       \<and> map_of f ''Failure_Rate_per_Hour'' = Some (of_int (age clk l) * 2)
       \<and> map_of f ''Distance_per_Hour'' = Some 0"
proof -
  have tf: "max 0 (real_of_int (age clk l) * 2 + real_of_int 0 / 10000) = of_int (age clk l) * 2"
    using assms(2) by simp
  from assms(3) show ?thesis
    unfolding derive_features_def Let_def py_truediv_floor and_then_Inr and_then_call_or
      assms(1) tf
    by (auto split: option.splits split del: if_split)
qed

lemma risk_level_veteran: "get_risk_level clock_winter loco_veteran = ''High''"
  by (simp add: get_risk_level_def calculate_risk_score_def age_def clock_winter_def
        loco_veteran_def Let_def)

lemma generate_recommendations_length:
  "2 \<le> length (generate_recommendations clk l rs lvl rc p)
   \<and> length (generate_recommendations clk l rs lvl rc p) \<le> 5"
  by (simp add: generate_recommendations_def get_availability_recommendations_def
        get_distance_recommendations_def get_daily_distance_recommendations_def
        get_failure_recommendations_def get_reliability_recommendations_def
        get_fuel_efficiency_recommendations_def Let_def)

lemma fallback_recommendations_length:
  "3 \<le> length (fallback_recommendations clk l lvl preds)
   \<and> length (fallback_recommendations clk l lvl preds) \<le> 11"
  by (simp add: fallback_recommendations_def Let_def)

text \<open>
  The fallback recommendations of the thirty-year-old, never serviced locomotive of the
  first example scenario of the specification, in April, for the prediction type
  \<open>all\<close>.
\<close>

lemma scenario_fallback_list:
  "recommendations_of (fallback_prediction clock_spring loco_old ''all'' 30)
     = [fb_high_1, fb_high_2, fb_age25_1, fb_age25_2, fb_hours50,
        fuel_moderate_1, fuel_moderate_2, fb_nrz]"
proof -
  have lvl: "get_risk_level clock_spring loco_old = ''High''"
    by (simp add: get_risk_level_def calculate_risk_score_def age_def clock_spring_def
          loco_old_def Let_def)
  have a: "age clock_spring loco_old = 30"
    by (simp add: age_def clock_spring_def loco_old_def)
  have fuel: "map_of (fallback_predictions clock_spring loco_old ''all'' 30) ''fuel_efficiency''
                = Some 60"
    by (simp add: map_of_fallback_fuel a)
  have "map_of preds ''fuel_efficiency'' = Some 60 \<Longrightarrow>
        fallback_recommendations clock_spring loco_old ''High'' preds
          = [fb_high_1, fb_high_2, fb_age25_1, fb_age25_2, fb_hours50,
             fuel_moderate_1, fuel_moderate_2, fb_nrz]" for preds
    by (simp add: fallback_recommendations_def age_def clock_spring_def loco_old_def Let_def)
  from this [OF fuel] show ?thesis
    by (simp add: recommendations_of_fallback lvl)
qed

subsection \<open>The claims\<close>

text \<open>
  C3. For every locomotive snapshot, \<open>calculate_risk_score\<close> is the additive formula of
  the specification: the minimum of 100 and the sum of the age risk \<open>min(50, age*2)\<close>,
  the usage risk \<open>min(30, hours/1000*0.6)\<close> and the maintenance risk, which is
  \<open>min(20, days*0.2)\<close> when a last-maintenance date exists and 20 otherwise; and
  \<open>get_risk_level\<close> maps that score to High from 70, Medium from 40, Low below.
\<close>

theorem risk_score_formula:
  "calculate_risk_score clk l
     = spec_risk_score (age clk l) (operating_hours l) (days_since_last_maintenance clk l)
   \<and> get_risk_level clk l = spec_risk_level (calculate_risk_score clk l)"
  by (cases "last_maintenance l")
     (simp_all add: calculate_risk_score_def get_risk_level_def spec_risk_score_def
        spec_risk_level_def days_since_last_maintenance_def Let_def)

text \<open>
  C4. Every risk score and every reliability value the program computes lies in [0,100]
  for a snapshot with non-negative age and operating hours. The rescaled score of the
  model path and both reliability values are clamped on both sides
  (\<open>rescaled_bounds\<close>, \<open>reliability_bounds\<close>), and \<open>calculate_risk_score\<close> is
  clamped from above (\<open>risk_score_upper\<close>); but it has no lower clamp: a snapshot of
  age 0 with 0 operating hours whose last-maintenance date lies ten days after today
  has the risk score -2.
\<close>

theorem risk_score_negative_at_future_date:
  "0 \<le> age \<lparr>current_year = 2025, current_month = 4, today = 739356, now_iso = ''''\<rparr>
        \<lparr>model = ''DE10'', manufacturing_year = 2025, operating_hours = 0,
         last_maintenance = Some 739366, current_status = ''active'', fleet = None\<rparr>
   \<and> 0 \<le> operating_hours
        \<lparr>model = ''DE10'', manufacturing_year = 2025, operating_hours = 0,
         last_maintenance = Some 739366, current_status = ''active'', fleet = None\<rparr>
   \<and> calculate_risk_score
        \<lparr>current_year = 2025, current_month = 4, today = 739356, now_iso = ''''\<rparr>
        \<lparr>model = ''DE10'', manufacturing_year = 2025, operating_hours = 0,
         last_maintenance = Some 739366, current_status = ''active'', fleet = None\<rparr> = - 2"
  by (simp add: calculate_risk_score_def age_def Let_def)

text \<open>
  C9. On the fallback path, for every snapshot and every prediction type other than
  \<open>all\<close> and \<open>fuel_efficiency\<close>, the predictions dictionary has no
  \<open>fuel_efficiency\<close> key, and the recommendations contain the POOR FUEL EFFICIENCY
  statement and the statement to avoid the locomotive for fuel-sensitive operations,
  whatever the age and the condition of the locomotive.
\<close>

theorem fallback_always_poor_fuel:
  assumes "p \<noteq> ''all''" and "p \<noteq> ''fuel_efficiency''"
  shows "map_of (predictions_of (fallback_prediction clk l p d)) ''fuel_efficiency'' = None
       \<and> fuel_poor_1 \<in> set (recommendations_of (fallback_prediction clk l p d))
       \<and> fuel_poor_2 \<in> set (recommendations_of (fallback_prediction clk l p d))"
proof -
  have none: "map_of (fallback_predictions clk l p d) ''fuel_efficiency'' = None"
    using assms by (simp add: map_of_fallback_fuel)
  show ?thesis
    using none fallback_recommendations_fuel [OF none]
    by (simp add: predictions_of_fallback recommendations_of_fallback)
qed

text \<open>A three-year-old locomotive with no operating hours, asked for its reliability.\<close>

theorem fallback_always_poor_fuel_witness:
  "''reliability'' \<noteq> ''all'' \<and> ''reliability'' \<noteq> ''fuel_efficiency''
   \<and> age clock_spring loco_idle = 3
   \<and> fuel_poor_1 \<in> set (recommendations_of
                          (fallback_prediction clock_spring loco_idle ''reliability'' 365))
   \<and> fuel_poor_2 \<in> set (recommendations_of
                          (fallback_prediction clock_spring loco_idle ''reliability'' 365))"
proof -
  have h1: "''reliability'' \<noteq> ''all''" by simp
  have h2: "''reliability'' \<noteq> ''fuel_efficiency''" by simp
  have a: "age clock_spring loco_idle = 3"
    by (simp add: age_def clock_spring_def loco_idle_def)
  show ?thesis
    using a fallback_always_poor_fuel [OF h1 h2, of clock_spring loco_idle 365] by simp
qed

text \<open>
  C10. On the fallback path the \<open>distance_per_day\<close> metric is \<open>100 - age*2\<close> with no
  lower clamp, so it is negative exactly when the age exceeds 50; the bulk prediction
  computes \<open>120 - age*2\<close>, negative exactly when the age exceeds 60; the synthesizer of
  the model path clamps the metric to at least 0.
\<close>

theorem fallback_distance_per_day_unclamped:
  assumes "p = ''all'' \<or> p = ''distance_per_day''"
  shows "map_of (predictions_of (fallback_prediction clk l p d)) ''distance_per_day''
           = Some (of_int (100 - age clk l * 2))
       \<and> (50 < age clk l \<longleftrightarrow> real_of_int (100 - age clk l * 2) < 0)
       \<and> map_of (bulk_predictions clk l p) ''distance_per_day''
           = Some (of_int (120 - age clk l * 2))
       \<and> (60 < age clk l \<longleftrightarrow> real_of_int (120 - age clk l * 2) < 0)
       \<and> (\<exists>v. map_of (generate_specific_predictions clk l p d rs rc) ''distance_per_day''
                = Some v \<and> 0 \<le> v)"
proof -
  have "(50 < age clk l \<longleftrightarrow> real_of_int (100 - age clk l * 2) < 0)" by auto
  moreover have "(60 < age clk l \<longleftrightarrow> real_of_int (120 - age clk l * 2) < 0)" by auto
  ultimately show ?thesis
    using assms
    by (simp add: predictions_of_fallback map_of_fallback_daily map_of_bulk_daily
          map_of_gsp_daily)
qed

text \<open>A locomotive built in 1970 is 55 years old in 2025: -10 per day.\<close>

theorem fallback_distance_per_day_unclamped_witness:
  "age clock_spring loco_veteran = 55
   \<and> map_of (predictions_of (fallback_prediction clock_spring loco_veteran
               ''distance_per_day'' 365)) ''distance_per_day'' = Some (- 10)
   \<and> map_of (bulk_predictions clock_spring loco_veteran ''distance_per_day'')
        ''distance_per_day'' = Some 10"
proof -
  have h: "''distance_per_day'' = ''all'' \<or> ''distance_per_day'' = ''distance_per_day''"
    by simp
  have a: "age clock_spring loco_veteran = 55"
    by (simp add: age_def clock_spring_def loco_veteran_def)
  show ?thesis
    using a fallback_distance_per_day_unclamped [OF h, of clock_spring loco_veteran 365 50 "''Medium''"]
    by simp
qed

text \<open>
  C6. For every snapshot, risk score and horizon, when the prediction type is one of the
  six metric names the predictions dictionary holds exactly that key, in the synthesizer
  of the model path, in the fallback path and in every result of \<open>predict_performance\<close>;
  when it is \<open>all\<close> the dictionary holds the six metrics. Every value of the
  synthesizer is at least 0, and its reliability and fuel efficiency are at most 100.
\<close>

theorem predictions_only_requested_metric:
  assumes "p \<in> set metric_names"
  shows "map fst (generate_specific_predictions clk l p d rs rc) = [p]
       \<and> map fst (fallback_predictions clk l p d) = [p]
       \<and> map fst (predictions_of (predict_performance b clk l p d)) = [p]
       \<and> map fst (generate_specific_predictions clk l ''all'' d rs rc) = metric_names
       \<and> map fst (fallback_predictions clk l ''all'' d) = metric_names
       \<and> map fst (predictions_of (predict_performance b clk l ''all'' d)) = metric_names
       \<and> list_all (\<lambda>(k, v). 0 \<le> v) (generate_specific_predictions clk l q d rs rc)
       \<and> (case map_of (generate_specific_predictions clk l q d rs rc) ''reliability'' of
             None \<Rightarrow> True | Some v \<Rightarrow> v \<le> 100)
       \<and> (case map_of (generate_specific_predictions clk l q d rs rc) ''fuel_efficiency'' of
             None \<Rightarrow> True | Some v \<Rightarrow> v \<le> 100)"
proof -
  have one: "filter (\<lambda>k. p = ''all'' \<or> p = k) metric_names = [p]"
    by (rule filter_metric_single [OF assms])
  have every: "filter (\<lambda>k. ''all'' = ''all'' \<or> ''all'' = k) metric_names = metric_names"
    by simp
  have rel: "(case map_of (generate_specific_predictions clk l q d rs rc) ''reliability'' of
             None \<Rightarrow> True | Some v \<Rightarrow> v \<le> 100)"
    by (simp add: map_of_gsp_reliability)
  have fuel: "(case map_of (generate_specific_predictions clk l q d rs rc) ''fuel_efficiency'' of
             None \<Rightarrow> True | Some v \<Rightarrow> v \<le> 100)"
    by (simp add: map_of_gsp_fuel)
  show ?thesis
    using one every rel fuel gsp_nonneg [of clk l q d rs rc]
    by (simp add: keys_gsp keys_fallback_predictions keys_predictions_of_result)
qed

text \<open>The reliability of a ten-year-old locomotive, with and without artifacts.\<close>

theorem predictions_only_requested_metric_witness:
  "''reliability'' \<in> set metric_names
   \<and> map fst (predictions_of (predict_performance bundle_constant clock_spring loco_mid
                 ''reliability'' 365)) = [''reliability'']
   \<and> map fst (predictions_of (predict_performance bundle_missing clock_spring loco_mid
                 ''reliability'' 365)) = [''reliability'']
   \<and> map fst (predictions_of (predict_performance bundle_constant clock_spring loco_mid
                 ''all'' 365)) = metric_names"
proof -
  have h: "''reliability'' \<in> set metric_names"
    by (simp add: metric_names_def)
  show ?thesis
    using h
      predictions_only_requested_metric [OF h, of clock_spring loco_mid 365 50 "''Medium''" bundle_constant "''all''"]
      predictions_only_requested_metric [OF h, of clock_spring loco_mid 365 50 "''Medium''" bundle_missing "''all''"]
    by simp
qed





text \<open>
  C5. For every snapshot with \<open>operating_hours = 0\<close> and non-negative age, feature
  derivation raises no division by zero: the body of \<^verbatim>\<open>_prepare_locomotive_features\<close>
  either fails with the \<open>ValueError\<close> of a label encoder or returns the features, and
  then the per-hour features are the numbers \<open>failure_rate = age*2\<close>,
  \<open>usage_intensity = 0\<close>, \<open>failure_rate_per_hour = age*2\<close> and
  \<open>distance_per_hour = 0\<close>, every snapshot-dependent denominator being floored at 1.
  With encoders that accept every label the features are returned.
\<close>

theorem derive_features_guards_division:
  assumes "operating_hours l = 0" and "0 \<le> age clk l"
  shows "derive_features b clk l \<noteq> Inl ZeroDivisionError
       \<and> (case derive_features b clk l of
             Inl e \<Rightarrow> e = ValueError
           | Inr f \<Rightarrow> map_of f ''Failure_Rate'' = Some (of_int (age clk l) * 2)
                    \<and> map_of f ''Usage_Intensity'' = Some 0
                    \<and> map_of f ''Failure_Rate_per_Hour'' = Some (of_int (age clk l) * 2)
                    \<and> map_of f ''Distance_per_Hour'' = Some 0)
       \<and> ((\<forall>s. fleet_encoder b s \<noteq> None \<and> reliability_encoder b s \<noteq> None
                  \<and> age_encoder b s \<noteq> None)
            \<longrightarrow> (\<exists>f. derive_features b clk l = Inr f))"
proof -
  have no_zero: "derive_features b clk l \<noteq> Inl ZeroDivisionError"
    using derive_features_error [of b clk l ZeroDivisionError] by auto
  have vals: "(case derive_features b clk l of
             Inl e \<Rightarrow> e = ValueError
           | Inr f \<Rightarrow> map_of f ''Failure_Rate'' = Some (of_int (age clk l) * 2)
                    \<and> map_of f ''Usage_Intensity'' = Some 0
                    \<and> map_of f ''Failure_Rate_per_Hour'' = Some (of_int (age clk l) * 2)
                    \<and> map_of f ''Distance_per_Hour'' = Some 0)"
  proof (cases "derive_features b clk l")
    case (Inl e)
    then show ?thesis using derive_features_error [OF Inl] by simp
  next
    case (Inr f)
    then show ?thesis using derive_features_idle [OF assms Inr] by simp
  qed
  have returns: "(\<forall>s. fleet_encoder b s \<noteq> None \<and> reliability_encoder b s \<noteq> None
                  \<and> age_encoder b s \<noteq> None)
            \<longrightarrow> (\<exists>f. derive_features b clk l = Inr f)"
    using derive_features_succeeds [of b clk l] by blast
  show ?thesis using no_zero vals returns by blast
qed

text \<open>A three-year-old locomotive that has never run, with encoders that accept it.\<close>

theorem derive_features_guards_division_witness:
  "operating_hours loco_idle = 0 \<and> age clock_spring loco_idle = 3
   \<and> (\<exists>f. derive_features bundle_constant clock_spring loco_idle = Inr f
          \<and> map_of f ''Failure_Rate'' = Some 6
          \<and> map_of f ''Usage_Intensity'' = Some 0
          \<and> map_of f ''Failure_Rate_per_Hour'' = Some 6
          \<and> map_of f ''Distance_per_Hour'' = Some 0)"
proof -
  have h1: "operating_hours loco_idle = 0"
    by (simp add: loco_idle_def)
  have a: "age clock_spring loco_idle = 3"
    by (simp add: age_def clock_spring_def loco_idle_def)
  have h2: "0 \<le> age clock_spring loco_idle"
    by (simp add: a)
  have enc: "\<forall>s. fleet_encoder bundle_constant s \<noteq> None
                \<and> reliability_encoder bundle_constant s \<noteq> None
                \<and> age_encoder bundle_constant s \<noteq> None"
    by (simp add: bundle_constant_def)
  from derive_features_guards_division [OF h1 h2, of bundle_constant] enc
  obtain f where f: "derive_features bundle_constant clock_spring loco_idle = Inr f"
    by blast
  show ?thesis
    using h1 a f derive_features_guards_division [OF h1 h2, of bundle_constant]
    by (simp add: a)
qed

text \<open>
  C1. The recommendations of a result are at least 1 and at most 6 on both paths. The
  model path keeps the bound (\<open>generate_recommendations_length\<close>: between 2 and 5,
  under its truncation to 6). The fallback path has no truncation: for a locomotive
  built in 1970 with 70000 operating hours and no maintenance record, in January, with
  no artifacts and the prediction type \<open>availability_days\<close>, the result carries 11
  recommendations.
\<close>

theorem fallback_recommendations_exceed_six:
  "recommendations_of
     (predict_performance bundle_missing clock_winter loco_veteran ''availability_days'' 365)
     = [fb_high_1, fb_high_2, fb_age25_1, fb_age25_2, fb_hours60_1, fb_hours60_2,
        fb_winter_1, fb_winter_2, fuel_poor_1, fuel_poor_2, fb_nrz]
   \<and> length (recommendations_of
        (predict_performance bundle_missing clock_winter loco_veteran ''availability_days'' 365))
     = 11"
proof -
  have fb: "predict_performance bundle_missing clock_winter loco_veteran ''availability_days'' 365
      = fallback_prediction clock_winter loco_veteran ''availability_days'' 365"
    by (simp add: predict_performance_def bundle_missing_def)
  have none: "map_of (fallback_predictions clock_winter loco_veteran ''availability_days'' 365)
                ''fuel_efficiency'' = None"
    by (simp add: map_of_fallback_fuel)
  have "map_of preds ''fuel_efficiency'' = None \<Longrightarrow>
        fallback_recommendations clock_winter loco_veteran ''High'' preds
     = [fb_high_1, fb_high_2, fb_age25_1, fb_age25_2, fb_hours60_1, fb_hours60_2,
        fb_winter_1, fb_winter_2, fuel_poor_1, fuel_poor_2, fb_nrz]" for preds
    by (simp add: fallback_recommendations_def age_def clock_winter_def loco_veteran_def
          Let_def)
  from this [OF none]
  have "fallback_recommendations clock_winter loco_veteran ''High''
          (fallback_predictions clock_winter loco_veteran ''availability_days'' 365)
     = [fb_high_1, fb_high_2, fb_age25_1, fb_age25_2, fb_hours60_1, fb_hours60_2,
        fb_winter_1, fb_winter_2, fuel_poor_1, fuel_poor_2, fb_nrz]" .
  then show ?thesis
    by (simp add: fb recommendations_of_fallback risk_level_veteran)
qed

text \<open>
  C7. For a locomotive with \<open>manufacturing_year = current_year - 30\<close>,
  \<open>operating_hours = 60000\<close> and no last-maintenance date, the risk score is 100 and
  the risk level is High; the maintenance recommendations contain the Engine Overhaul
  item (priority High) and the Routine Maintenance item that is issued for a missing
  maintenance record; and the fallback result has the risk level High and contains the
  statement that a major overhaul is required due to age.
\<close>

theorem scenario_old_unserviced:
  assumes "manufacturing_year l = current_year clk - 30"
    and "operating_hours l = 60000"
    and "last_maintenance l = None"
  shows "calculate_risk_score clk l = 100
       \<and> get_risk_level clk l = ''High''
       \<and> [(''type'', ''Engine Overhaul''), (''priority'', ''High''),
           (''description'', ''Consider major engine overhaul due to age'')]
            \<in> set (get_maintenance_recommendations clk l)
       \<and> [(''type'', ''Routine Maintenance''), (''priority'', ''High''),
           (''description'', ''Overdue for routine maintenance'')]
            \<in> set (get_maintenance_recommendations clk l)
       \<and> map_of (fallback_prediction clk l p d) ''risk_level'' = Some (Str ''High'')
       \<and> fb_age25_1 \<in> set (recommendations_of (fallback_prediction clk l p d))"
proof -
  have a: "age clk l = 30"
    using assms(1) by (simp add: age_def)
  have score: "calculate_risk_score clk l = 100"
    by (simp add: calculate_risk_score_def a assms Let_def)
  have level: "get_risk_level clk l = ''High''"
    by (simp add: get_risk_level_def score Let_def)
  have items: "[(''type'', ''Engine Overhaul''), (''priority'', ''High''),
           (''description'', ''Consider major engine overhaul due to age'')]
            \<in> set (get_maintenance_recommendations clk l)
       \<and> [(''type'', ''Routine Maintenance''), (''priority'', ''High''),
           (''description'', ''Overdue for routine maintenance'')]
            \<in> set (get_maintenance_recommendations clk l)"
    by (simp add: get_maintenance_recommendations_def a assms score Let_def)
  have lvl: "map_of (fallback_prediction clk l p d) ''risk_level'' = Some (Str ''High'')"
    by (simp add: fallback_prediction_def level Let_def)
  have over: "fb_age25_1 \<in> set (fallback_recommendations clk l lvl' preds)" for lvl' preds
    by (simp add: fallback_recommendations_def a Let_def)
  show ?thesis
    using score level items lvl over by (simp add: recommendations_of_fallback)
qed

text \<open>The scenario in 2025: a locomotive built in 1995.\<close>

theorem scenario_old_unserviced_witness:
  "manufacturing_year loco_old = current_year clock_spring - 30
   \<and> operating_hours loco_old = 60000
   \<and> last_maintenance loco_old = None
   \<and> get_risk_level clock_spring loco_old = ''High''
   \<and> fb_age25_1 \<in> set (recommendations_of (fallback_prediction clock_spring loco_old ''all'' 30))"
proof -
  have h1: "manufacturing_year loco_old = current_year clock_spring - 30"
    by (simp add: loco_old_def clock_spring_def)
  have h2: "operating_hours loco_old = 60000"
    by (simp add: loco_old_def)
  have h3: "last_maintenance loco_old = None"
    by (simp add: loco_old_def)
  show ?thesis
    using h1 h2 h3 scenario_old_unserviced [OF h1 h2 h3, of "''all''" 30] by simp
qed

end
